theory Spec2Isabelle
  imports Main
begin

section \<open>Python values of the forwarding core\<close>

text \<open>
  The forwarding core of \<^verbatim>\<open>forward.py\<close>: the text filter
  (\<^verbatim>\<open>_apply_filters_and_prefix_suffix\<close>), the inbound handler
  (\<^verbatim>\<open>_hot_message_handler\<close>), the target resolver
  (\<^verbatim>\<open>resolve_target_entity_once\<close>) and the send worker
  (\<^verbatim>\<open>send_worker_loop\<close>).

  A Python \<^verbatim>\<open>str\<close> is a \<open>string\<close>; a \<open>char\<close> is read as the code point
  of the same number, so the texts covered are those of code points below 256.
  Exceptions are values of \<open>error\<close>.
\<close>

datatype error =
    TypeError
  | QueueFull
  | FloodWaitError int
  | RPCError

subsection \<open>Character classes\<close>

text \<open>
  \<^verbatim>\<open>str.strip()\<close> and the pattern \<^verbatim>\<open>\s\<close> use the same whitespace class;
  below 256 it is the code points 9 to 13, 28 to 32, 133 and 160.
\<close>

definition isspace :: "char \<Rightarrow> bool" where
  "isspace c =
     (let n = (of_char c :: nat)
      in (9 \<le> n \<and> n \<le> 13) \<or> (28 \<le> n \<and> n \<le> 32) \<or> n = 133 \<or> n = 160)"

text \<open>The pattern \<^verbatim>\<open>\d\<close>: decimal digits, below 256 the ten ASCII digits.\<close>

definition re_digit :: "char \<Rightarrow> bool" where
  "re_digit c = (let n = (of_char c :: nat) in 48 \<le> n \<and> n \<le> 57)"

text \<open>The pattern \<^verbatim>\<open>[A-Za-z]\<close>.\<close>

definition re_ascii_letter :: "char \<Rightarrow> bool" where
  "re_ascii_letter c =
     (let n = (of_char c :: nat) in (65 \<le> n \<and> n \<le> 90) \<or> (97 \<le> n \<and> n \<le> 122))"

text \<open>
  One character of \<^verbatim>\<open>str.isalpha()\<close>: below 256 the ASCII letters, the code points
  170, 181, 186 and 192 to 255 without 215 and 247.
\<close>

definition alpha_char :: "char \<Rightarrow> bool" where
  "alpha_char c =
     (let n = (of_char c :: nat)
      in (65 \<le> n \<and> n \<le> 90) \<or> (97 \<le> n \<and> n \<le> 122) \<or> n = 170 \<or> n = 181 \<or> n = 186
         \<or> (192 \<le> n \<and> n \<le> 255 \<and> n \<noteq> 215 \<and> n \<noteq> 247))"

text \<open>
  One character of \<^verbatim>\<open>str.isdigit()\<close>: below 256 the ASCII digits and the
  superscripts 178, 179 and 185.
\<close>

definition digit_char :: "char \<Rightarrow> bool" where
  "digit_char c =
     (let n = (of_char c :: nat)
      in (48 \<le> n \<and> n \<le> 57) \<or> n = 178 \<or> n = 179 \<or> n = 185)"

text \<open>\<^verbatim>\<open>tok.isalpha()\<close> and \<^verbatim>\<open>tok.isdigit()\<close>: false on the empty string.\<close>

definition isalpha :: "string \<Rightarrow> bool" where
  "isalpha tok = (tok \<noteq> [] \<and> list_all alpha_char tok)"

definition isdigit :: "string \<Rightarrow> bool" where
  "isdigit tok = (tok \<noteq> [] \<and> list_all digit_char tok)"

subsection \<open>String and regular-expression builtins\<close>

definition strip :: "string \<Rightarrow> string" where
  "strip s = rev (dropWhile isspace (rev (dropWhile isspace s)))"

text \<open>
  \<^verbatim>\<open>re.split(r"\s+", text)\<close>: the pieces between maximal runs of whitespace; a
  run at either end leaves an empty piece there, and the empty text gives one
  empty piece.
\<close>

function re_split_ws :: "string \<Rightarrow> string list" where
  "re_split_ws s =
     (case dropWhile (\<lambda>c. \<not> isspace c) s of
        [] \<Rightarrow> [s]
      | c # rest \<Rightarrow> takeWhile (\<lambda>c. \<not> isspace c) s # re_split_ws (dropWhile isspace rest))"
  by pat_completeness auto
termination
proof (relation "measure length")
  show "wf (measure length)" by simp
next
  fix s :: string and c rest
  assume a: "dropWhile (\<lambda>c. \<not> isspace c) s = c # rest"
  have "length (dropWhile isspace rest) \<le> length rest"
    by (rule length_dropWhile_le)
  moreover have "length (c # rest) \<le> length s"
    unfolding a [symmetric] by (rule length_dropWhile_le)
  ultimately show "(dropWhile isspace rest, s) \<in> measure length"
    by simp
qed

text \<open>
  \<^verbatim>\<open>re.search(pattern, text)\<close> for a pattern of one character class: the match
  object of the first character of the class, or \<^verbatim>\<open>None\<close>.
\<close>

datatype re_match = Match nat char

fun search_from :: "(char \<Rightarrow> bool) \<Rightarrow> nat \<Rightarrow> string \<Rightarrow> re_match option" where
  "search_from cls i [] = None"
| "search_from cls i (c # cs) = (if cls c then Some (Match i c) else search_from cls (Suc i) cs)"

definition re_search :: "(char \<Rightarrow> bool) \<Rightarrow> string \<Rightarrow> re_match option" where
  "re_search cls text = search_from cls 0 text"

text \<open>
  The builtin \<^verbatim>\<open>any(x)\<close> iterates over \<^verbatim>\<open>x\<close>. The source passes it the
  result of \<^verbatim>\<open>re.search\<close>: \<^verbatim>\<open>None\<close>, or a match object, and neither is
  iterable, so the call raises \<^verbatim>\<open>TypeError\<close> in both cases.
\<close>

fun any_of_search :: "re_match option \<Rightarrow> error + bool" where
  "any_of_search None = Inl TypeError"
| "any_of_search (Some m) = Inl TypeError"

section \<open>Task settings\<close>

record filters =
  raw_text :: bool
  numbers_only :: bool
  alphabets_only :: bool
  removed_alphabetic :: bool
  removed_numeric :: bool
  add_prefix_suffix :: bool

record settings =
  outgoing :: bool
  forward_tag :: bool
  control :: bool
  filters :: filters
  prefix :: string
  suffix :: string

definition make_default_task_settings :: settings where
  "make_default_task_settings =
     \<lparr> outgoing = True, forward_tag = True, control = True,
       filters = \<lparr> raw_text = False, numbers_only = False, alphabets_only = False,
                   removed_alphabetic = False, removed_numeric = False,
                   add_prefix_suffix = False \<rparr>,
       prefix = [], suffix = [] \<rparr>"

section \<open>The filter engine\<close>

text \<open>The loop \<^verbatim>\<open>for tok in tokens: if tok.isalpha(): results.append(tok)\<close>.\<close>

fun append_tokens :: "(string \<Rightarrow> bool) \<Rightarrow> string list \<Rightarrow> string list \<Rightarrow> string list" where
  "append_tokens p [] results = results"
| "append_tokens p (tok # toks) results =
     append_tokens p toks (if p tok then results @ [tok] else results)"

text \<open>
  The list \<^verbatim>\<open>results\<close> before deduplication. With \<^verbatim>\<open>raw_text\<close> off the two
  \<^verbatim>\<open>any(re.search(...))\<close> calls come first; the four filters follow them.
\<close>

definition collect_results :: "string \<Rightarrow> filters \<Rightarrow> error + string list" where
  "collect_results text fs =
     (if raw_text fs then Inr [text]
      else
        let tokens = re_split_ws text in
        case any_of_search (re_search re_digit text) of
          Inl e \<Rightarrow> Inl e
        | Inr has_digit \<Rightarrow>
            (case any_of_search (re_search re_ascii_letter text) of
               Inl e \<Rightarrow> Inl e
             | Inr has_alpha \<Rightarrow>
                 let r1 = (if numbers_only fs \<and> has_digit then [text] else []);
                     r2 = (if alphabets_only fs \<and> has_alpha \<and> \<not> has_digit
                           then r1 @ [text] else r1);
                     r3 = (if removed_alphabetic fs \<and> has_alpha
                           then append_tokens isalpha tokens r2 else r2);
                     r4 = (if removed_numeric fs \<and> has_digit
                           then append_tokens isdigit tokens r3 else r3)
                 in Inr r4))"

text \<open>The deduplication loop, with its list \<^verbatim>\<open>deduped\<close> and its set \<^verbatim>\<open>seen\<close>.\<close>

fun dedup_loop :: "string list \<Rightarrow> string list \<Rightarrow> string set \<Rightarrow> string list" where
  "dedup_loop [] deduped seen = deduped"
| "dedup_loop (r # rs) deduped seen =
     (if r \<notin> seen then dedup_loop rs (deduped @ [r]) (insert r seen)
      else dedup_loop rs deduped seen)"

text \<open>The value of \<^verbatim>\<open>deduped\<close> when the last loop starts.\<close>

definition deduped_results :: "string \<Rightarrow> settings \<Rightarrow> error + string list" where
  "deduped_results message_text st =
     (case collect_results (strip message_text) (filters st) of
        Inl e \<Rightarrow> Inl e
      | Inr results \<Rightarrow> Inr (dedup_loop results [] {}))"

text \<open>The last loop: \<^verbatim>\<open>final.append(f"{prefix}{line}{suffix}")\<close>.\<close>

fun affix_loop :: "string \<Rightarrow> string \<Rightarrow> string list \<Rightarrow> string list \<Rightarrow> string list" where
  "affix_loop pre suf [] final = final"
| "affix_loop pre suf (line # ls) final = affix_loop pre suf ls (final @ [pre @ line @ suf])"

text \<open>
  \<^verbatim>\<open>settings.get("prefix", "") or ""\<close> is the prefix itself, the field being a
  string.
\<close>

definition apply_filters_and_prefix_suffix :: "string \<Rightarrow> settings \<Rightarrow> error + string list" where
  "apply_filters_and_prefix_suffix message_text st =
     (case deduped_results message_text st of
        Inl e \<Rightarrow> Inl e
      | Inr deduped \<Rightarrow> Inr (affix_loop (prefix st) (suffix st) deduped []))"

section \<open>Shared state of the forwarding core\<close>

text \<open>
  A task dict: the handler reads its \<^verbatim>\<open>label\<close>, \<^verbatim>\<open>source_ids\<close> and
  \<^verbatim>\<open>target_ids\<close>. Chat ids are Python ints.
\<close>

record task =
  label :: string
  source_ids :: "int list"
  target_ids :: "int list"

text \<open>
  The message object of an event, with the attributes the handler reads
  (\<^verbatim>\<open>message\<close>, \<^verbatim>\<open>chat_id\<close>, \<^verbatim>\<open>out\<close>) and an identity.
\<close>

record message =
  msg_id :: nat
  msg_message :: "string option"
  msg_chat_id :: "int option"
  msg_out :: bool

record event =
  ev_raw_text :: "string option"
  ev_message :: "message option"
  ev_chat_id :: "int option"

text \<open>A client and a resolved entity are opaque handles.\<close>

type_synonym client = nat

datatype entity = InputPeer int

text \<open>
  The payload of a job is a text, or the tuple
  \<^verbatim>\<open>("__FORWARD_ORIG__", message)\<close>. A job is the tuple
  \<^verbatim>\<open>(user_id, client, target_id, payload)\<close>.
\<close>

datatype payload = Text string | ForwardOrig "message option"

type_synonym job = "int \<times> client \<times> int \<times> payload"

text \<open>\<^verbatim>\<open>asyncio.Queue(maxsize)\<close>: a FIFO list of items and its bound.\<close>

record queue =
  maxsize :: int
  queue_items :: "job list"

text \<open>The records the modelled functions write to the logger.\<close>

datatype log_record =
    QueueNotInitialized
  | QueueFullDropping int int
  | HandlerException int error
  | CouldNotResolve int int
  | WorkerStarted nat
  | WorkerBeforeQueue
  | ErrorGettingItem nat
  | ForwardedOriginal int int
  | SkippingUnresolved int int
  | SentMessage int int
  | FloodWaitPausing int nat
  | RequeueFullDropping
  | ErrorSending int int error
  | UnexpectedWorkerError nat

text \<open>
  The awaited calls that leave the process, in the order they are made. A call
  of \<^verbatim>\<open>client.get_input_entity(target_id)\<close> is recorded with the user it is
  made for.
\<close>

datatype effect =
    GetInputEntity int client int
  | SendMessage client entity string
  | ForwardMessages client int message
  | Sleep int

record state =
  tasks_cache :: "int \<rightharpoonup> task list"
  tasks_settings :: "int \<rightharpoonup> (string \<rightharpoonup> settings)"
  send_queue :: "queue option"
  target_entity_cache :: "int \<rightharpoonup> (int \<rightharpoonup> entity)"
  log_records :: "log_record list"
  effects :: "effect list"

text \<open>
  How a coroutine leaves a piece of code: it returns, it raises, or it is
  suspended inside an \<^verbatim>\<open>await\<close> that cannot complete in the current state.
  Each carries the state reached. The model ends at a suspension: what the
  coroutine does once another coroutine wakes it is not described.
\<close>

datatype 's outcome = Returned 's | Raised error 's | Suspended 's

section \<open>The bounded queue\<close>

definition full :: "queue \<Rightarrow> bool" where
  "full q = (if maxsize q \<le> 0 then False else maxsize q \<le> int (length (queue_items q)))"

text \<open>
  \<^verbatim>\<open>await send_queue.put(item)\<close>: while the queue is full the caller waits
  for a free slot; otherwise the item goes to the tail. This method never
  raises \<^verbatim>\<open>QueueFull\<close>.
\<close>

definition queue_put :: "queue \<Rightarrow> job \<Rightarrow> queue outcome" where
  "queue_put q item =
     (if full q then Suspended q
      else Returned (q\<lparr>queue_items := queue_items q @ [item]\<rparr>))"

section \<open>The inbound message handler\<close>

text \<open>The loop \<^verbatim>\<open>for om in out_messages: await send_queue.put(...)\<close>.\<close>

fun put_messages :: "queue \<Rightarrow> int \<Rightarrow> client \<Rightarrow> int \<Rightarrow> string list \<Rightarrow> queue outcome" where
  "put_messages q user_id cl target_id [] = Returned q"
| "put_messages q user_id cl target_id (om # oms) =
     (case queue_put q (user_id, cl, target_id, Text om) of
        Returned q' \<Rightarrow> put_messages q' user_id cl target_id oms
      | Raised e q' \<Rightarrow> Raised e q'
      | Suspended q' \<Rightarrow> Suspended q')"

text \<open>
  The body of the loop over the targets: the \<^verbatim>\<open>try\<close> block and its
  \<^verbatim>\<open>except asyncio.QueueFull\<close> clause.
\<close>

definition enqueue_for_target ::
  "int \<Rightarrow> client \<Rightarrow> event \<Rightarrow> settings \<Rightarrow> string list \<Rightarrow> state \<Rightarrow> int \<Rightarrow> state outcome" where
  "enqueue_for_target user_id cl ev st out_messages s target_id =
     (case send_queue s of
        None \<Rightarrow> Returned (s\<lparr>log_records := log_records s @ [QueueNotInitialized]\<rparr>)
      | Some q \<Rightarrow>
          (case (if forward_tag st \<and> raw_text (filters st) \<and> length out_messages = 1
                 then queue_put q (user_id, cl, target_id, ForwardOrig (ev_message ev))
                 else put_messages q user_id cl target_id out_messages) of
             Returned q' \<Rightarrow> Returned (s\<lparr>send_queue := Some q'\<rparr>)
           | Suspended q' \<Rightarrow> Suspended (s\<lparr>send_queue := Some q'\<rparr>)
           | Raised e q' \<Rightarrow>
               (if e = QueueFull
                then Returned (s\<lparr>send_queue := Some q',
                       log_records := log_records s @ [QueueFullDropping user_id target_id]\<rparr>)
                else Raised e (s\<lparr>send_queue := Some q'\<rparr>))))"

fun enqueue_for_targets ::
  "int \<Rightarrow> client \<Rightarrow> event \<Rightarrow> settings \<Rightarrow> string list \<Rightarrow> state \<Rightarrow> int list \<Rightarrow> state outcome" where
  "enqueue_for_targets user_id cl ev st out_messages s [] = Returned s"
| "enqueue_for_targets user_id cl ev st out_messages s (target_id # tids) =
     (case enqueue_for_target user_id cl ev st out_messages s target_id of
        Returned s' \<Rightarrow> enqueue_for_targets user_id cl ev st out_messages s' tids
      | Raised e s' \<Rightarrow> Raised e s'
      | Suspended s' \<Rightarrow> Suspended s')"

text \<open>
  \<^verbatim>\<open>tasks_settings.setdefault(user_id, {}).setdefault(label, defaults)\<close>: the
  stored settings, or the defaults, which are then stored.
\<close>

definition settings_setdefault :: "state \<Rightarrow> int \<Rightarrow> string \<Rightarrow> settings \<times> state" where
  "settings_setdefault s user_id lbl =
     (case tasks_settings s user_id of
        None \<Rightarrow>
          (make_default_task_settings,
           s\<lparr>tasks_settings :=
               (tasks_settings s)(user_id \<mapsto> [lbl \<mapsto> make_default_task_settings])\<rparr>)
      | Some per_user \<Rightarrow>
          (case per_user lbl of
             Some st \<Rightarrow> (st, s)
           | None \<Rightarrow>
               (make_default_task_settings,
                s\<lparr>tasks_settings :=
                    (tasks_settings s)(user_id \<mapsto> per_user(lbl \<mapsto> make_default_task_settings))\<rparr>)))"

text \<open>The body of the loop over the tasks, for one task.\<close>

definition process_task ::
  "int \<Rightarrow> client \<Rightarrow> event \<Rightarrow> string \<Rightarrow> int \<Rightarrow> bool \<Rightarrow> state \<Rightarrow> task \<Rightarrow> state outcome" where
  "process_task user_id cl ev message_text chat_id is_outgoing s t =
     (if chat_id \<in> set (source_ids t) then
        (case settings_setdefault s user_id (label t) of
           (st, s1) \<Rightarrow>
             if \<not> control st then Returned s1
             else if \<not> outgoing st \<and> is_outgoing then Returned s1
             else
               (case apply_filters_and_prefix_suffix message_text st of
                  Inl e \<Rightarrow> Raised e s1
                | Inr out_messages \<Rightarrow>
                    if out_messages = [] then Returned s1
                    else enqueue_for_targets user_id cl ev st out_messages s1 (target_ids t)))
      else Returned s)"

fun process_tasks ::
  "int \<Rightarrow> client \<Rightarrow> event \<Rightarrow> string \<Rightarrow> int \<Rightarrow> bool \<Rightarrow> state \<Rightarrow> task list \<Rightarrow> state outcome" where
  "process_tasks user_id cl ev message_text chat_id is_outgoing s [] = Returned s"
| "process_tasks user_id cl ev message_text chat_id is_outgoing s (t # ts) =
     (case process_task user_id cl ev message_text chat_id is_outgoing s t of
        Returned s' \<Rightarrow> process_tasks user_id cl ev message_text chat_id is_outgoing s' ts
      | Raised e s' \<Rightarrow> Raised e s'
      | Suspended s' \<Rightarrow> Suspended s')"

text \<open>
  Python's \<^verbatim>\<open>a or b\<close> on the two places a text, and a chat id, may come
  from: the first if it is truthy, else the second.
\<close>

definition event_message_text :: "event \<Rightarrow> string option" where
  "event_message_text ev =
     (let fallback = (case ev_message ev of None \<Rightarrow> None | Some m \<Rightarrow> msg_message m)
      in case ev_raw_text ev of
           None \<Rightarrow> fallback
         | Some t \<Rightarrow> if t \<noteq> [] then Some t else fallback)"

definition event_chat_id :: "event \<Rightarrow> int option" where
  "event_chat_id ev =
     (let fallback = (case ev_message ev of None \<Rightarrow> None | Some m \<Rightarrow> msg_chat_id m)
      in case ev_chat_id ev of
           None \<Rightarrow> fallback
         | Some c \<Rightarrow> if c \<noteq> 0 then Some c else fallback)"

definition event_is_outgoing :: "event \<Rightarrow> bool" where
  "event_is_outgoing ev = (case ev_message ev of None \<Rightarrow> False | Some m \<Rightarrow> msg_out m)"

text \<open>
  The handler registered for \<^verbatim>\<open>user_id\<close> and \<^verbatim>\<open>client\<close>. Its first call,
  \<^verbatim>\<open>optimized_gc()\<close>, touches only the collector's timestamp and is left out.
  The \<^verbatim>\<open>except Exception\<close> clause around the whole body logs and returns.
\<close>

definition hot_message_handler :: "int \<Rightarrow> client \<Rightarrow> event \<Rightarrow> state \<Rightarrow> state outcome" where
  "hot_message_handler user_id cl ev s =
     (case event_message_text ev of
        None \<Rightarrow> Returned s
      | Some message_text \<Rightarrow>
          if message_text = [] \<or> strip message_text = [] then Returned s
          else
            (case event_chat_id ev of
               None \<Rightarrow> Returned s
             | Some chat_id \<Rightarrow>
                 (case tasks_cache s user_id of
                    None \<Rightarrow> Returned s
                  | Some user_tasks \<Rightarrow>
                      if user_tasks = [] then Returned s
                      else
                        (case process_tasks user_id cl ev message_text chat_id
                                (event_is_outgoing ev) s user_tasks of
                           Returned s' \<Rightarrow> Returned s'
                         | Suspended s' \<Rightarrow> Suspended s'
                         | Raised e s' \<Rightarrow>
                             Returned (s'\<lparr>log_records :=
                               log_records s' @ [HandlerException user_id e]\<rparr>)))))"

section \<open>Target resolution\<close>

text \<open>The cache entry of a user and a target, if there is one.\<close>

definition cached_entity :: "state \<Rightarrow> int \<Rightarrow> int \<Rightarrow> entity option" where
  "cached_entity s user_id target_id =
     (case target_entity_cache s user_id of None \<Rightarrow> None | Some m \<Rightarrow> m target_id)"

text \<open>
  \<^verbatim>\<open>resolve_target_entity_once\<close> is a coroutine with one \<^verbatim>\<open>await\<close>, on
  \<^verbatim>\<open>client.get_input_entity\<close>, between its cache test and its cache store.
  Other coroutines run while it waits there, so the call is two steps.

  The first step runs to the \<^verbatim>\<open>return\<close> of the cached entry or to the
  \<^verbatim>\<open>await\<close>; the invocation of the external resolver is recorded in
  \<open>effects\<close>.
\<close>

datatype resolve_progress = Returns "entity option" | AwaitsResolver

definition resolve_begin :: "state \<Rightarrow> int \<Rightarrow> client \<Rightarrow> int \<Rightarrow> resolve_progress \<times> state" where
  "resolve_begin s user_id cl target_id =
     (let s1 = (case target_entity_cache s user_id of
                  None \<Rightarrow> s\<lparr>target_entity_cache := (target_entity_cache s)(user_id \<mapsto> Map.empty)\<rparr>
                | Some m \<Rightarrow> s);
          per_user = (case target_entity_cache s user_id of None \<Rightarrow> Map.empty | Some m \<Rightarrow> m)
      in case per_user target_id of
           Some cached \<Rightarrow> (Returns (Some cached), s1)
         | None \<Rightarrow>
             (AwaitsResolver,
              s1\<lparr>effects := effects s1 @ [GetInputEntity user_id cl target_id]\<rparr>))"

text \<open>
  The second step runs from the answer of the external resolver, an entity or
  an exception, to the \<^verbatim>\<open>return\<close>. The store reads the user's cache dict
  again; if the user has been removed meanwhile the store raises
  \<^verbatim>\<open>KeyError\<close>, which the same \<^verbatim>\<open>except Exception\<close> clause catches.
\<close>

definition resolve_finish ::
  "error + entity \<Rightarrow> state \<Rightarrow> int \<Rightarrow> client \<Rightarrow> int \<Rightarrow> entity option \<times> state" where
  "resolve_finish answer s user_id cl target_id =
     (case answer of
        Inr ent \<Rightarrow>
          (case target_entity_cache s user_id of
             None \<Rightarrow>
               (None,
                s\<lparr>log_records := log_records s @ [CouldNotResolve target_id user_id]\<rparr>)
           | Some per_user \<Rightarrow>
               (Some ent,
                s\<lparr>target_entity_cache :=
                     (target_entity_cache s)(user_id \<mapsto> per_user(target_id \<mapsto> ent))\<rparr>))
      | Inl e \<Rightarrow>
          (None, s\<lparr>log_records := log_records s @ [CouldNotResolve target_id user_id]\<rparr>))"

text \<open>
  A call during whose \<^verbatim>\<open>await\<close> nothing else touches the state: the two
  steps back to back. The first argument is the answer of the external
  resolver, used if the call reaches it.
\<close>

definition resolve_target_entity_once ::
  "error + entity \<Rightarrow> state \<Rightarrow> int \<Rightarrow> client \<Rightarrow> int \<Rightarrow> entity option \<times> state" where
  "resolve_target_entity_once answer s user_id cl target_id =
     (case resolve_begin s user_id cl target_id of
        (Returns r, s1) \<Rightarrow> (r, s1)
      | (AwaitsResolver, s1) \<Rightarrow> resolve_finish answer s1 user_id cl target_id)"








section \<open>The send worker\<close>

text \<open>
  What the platform answers during one iteration of the worker: to
  \<^verbatim>\<open>get_input_entity\<close>, and to \<^verbatim>\<open>send_message\<close> or
  \<^verbatim>\<open>forward_messages\<close>, whichever the iteration calls.
\<close>

record answers =
  entity_answer :: "error + entity"
  send_answer :: "error + unit"

text \<open>
  Where the worker stands after an iteration: it goes on to the next one, it
  has left the loop, or it is suspended in \<^verbatim>\<open>get\<close> on an empty queue or in
  \<^verbatim>\<open>put\<close> on a full one.
\<close>

datatype worker_status = Continues | Stopped | WaitingGet | WaitingPut

text \<open>
  The \<^verbatim>\<open>except FloodWaitError\<close> clause: sleep, then put the same job back.
  An exception inside this clause reaches the outer \<^verbatim>\<open>except Exception\<close>.
\<close>

definition flood_wait_requeue :: "nat \<Rightarrow> int \<Rightarrow> job \<Rightarrow> state \<Rightarrow> worker_status \<times> state" where
  "flood_wait_requeue worker_id wait item s =
     (let s1 = s\<lparr>log_records := log_records s @ [FloodWaitPausing wait worker_id],
                 effects := effects s @ [Sleep (wait + 1)]\<rparr>
      in case send_queue s1 of
           None \<Rightarrow>
             (Continues, s1\<lparr>log_records := log_records s1 @ [UnexpectedWorkerError worker_id]\<rparr>)
         | Some q \<Rightarrow>
             (case queue_put q item of
                Returned q' \<Rightarrow> (Continues, s1\<lparr>send_queue := Some q'\<rparr>)
              | Suspended q' \<Rightarrow> (WaitingPut, s1\<lparr>send_queue := Some q'\<rparr>)
              | Raised e q' \<Rightarrow>
                  (Continues, s1\<lparr>send_queue := Some q',
                     log_records := log_records s1 @
                       [if e = QueueFull then RequeueFullDropping
                        else UnexpectedWorkerError worker_id]\<rparr>)))"

text \<open>The outcome of the awaited send or forward, through the two \<^verbatim>\<open>except\<close> clauses.\<close>

definition after_send ::
  "nat \<Rightarrow> error + unit \<Rightarrow> log_record \<Rightarrow> job \<Rightarrow> state \<Rightarrow> worker_status \<times> state" where
  "after_send worker_id answer done item s =
     (case answer of
        Inr u \<Rightarrow> (Continues, s\<lparr>log_records := log_records s @ [done]\<rparr>)
      | Inl (FloodWaitError wait) \<Rightarrow> flood_wait_requeue worker_id wait item s
      | Inl e \<Rightarrow>
          (case item of (user_id, cl, target_id, pl) \<Rightarrow>
             (Continues,
              s\<lparr>log_records := log_records s @ [ErrorSending user_id target_id e]\<rparr>)))"

text \<open>
  One pass through the body of \<^verbatim>\<open>while True\<close>. The counter behind
  \<^verbatim>\<open>task_done()\<close> is read by nothing and is left out.
\<close>

definition send_worker_iteration :: "nat \<Rightarrow> answers \<Rightarrow> state \<Rightarrow> worker_status \<times> state" where
  "send_worker_iteration worker_id ans s =
     (case send_queue s of
        None \<Rightarrow> (Stopped, s\<lparr>log_records := log_records s @ [ErrorGettingItem worker_id]\<rparr>)
      | Some q \<Rightarrow>
          (case queue_items q of
             [] \<Rightarrow> (WaitingGet, s)
           | item # rest \<Rightarrow>
               (let s1 = s\<lparr>send_queue := Some (q\<lparr>queue_items := rest\<rparr>)\<rparr>
                in case item of (user_id, cl, target_id, pl) \<Rightarrow>
                  (case pl of
                     ForwardOrig None \<Rightarrow> (Continues, s1)
                   | ForwardOrig (Some orig_message) \<Rightarrow>
                       after_send worker_id (send_answer ans)
                         (ForwardedOriginal user_id target_id) item
                         (s1\<lparr>effects := effects s1 @ [ForwardMessages cl target_id orig_message]\<rparr>)
                   | Text message_text \<Rightarrow>
                       (let cached = cached_entity s1 user_id target_id
                        in case (case cached of
                                   Some ent \<Rightarrow> (Some ent, s1)
                                 | None \<Rightarrow>
                                     resolve_target_entity_once (entity_answer ans)
                                       s1 user_id cl target_id) of
                             (None, s2) \<Rightarrow>
                               (Continues,
                                s2\<lparr>log_records :=
                                     log_records s2 @ [SkippingUnresolved target_id user_id]\<rparr>)
                           | (Some ent, s2) \<Rightarrow>
                               after_send worker_id (send_answer ans)
                                 (SentMessage user_id target_id) item
                                 (s2\<lparr>effects :=
                                      effects s2 @ [SendMessage cl ent message_text]\<rparr>))))))"

text \<open>
  The loop, run for as many iterations as there are answers in the script: it
  stops early when the worker leaves the loop or is suspended.
\<close>

fun send_worker_iterations :: "nat \<Rightarrow> answers list \<Rightarrow> state \<Rightarrow> worker_status \<times> state" where
  "send_worker_iterations worker_id [] s = (Continues, s)"
| "send_worker_iterations worker_id (ans # rest) s =
     (case send_worker_iteration worker_id ans s of
        (Continues, s') \<Rightarrow> send_worker_iterations worker_id rest s'
      | (status, s') \<Rightarrow> (status, s'))"

definition send_worker_loop :: "nat \<Rightarrow> answers list \<Rightarrow> state \<Rightarrow> worker_status \<times> state" where
  "send_worker_loop worker_id script s =
     (let s1 = s\<lparr>log_records := log_records s @ [WorkerStarted worker_id]\<rparr>
      in case send_queue s1 of
           None \<Rightarrow> (Stopped, s1\<lparr>log_records := log_records s1 @ [WorkerBeforeQueue]\<rparr>)
         | Some q \<Rightarrow> send_worker_iterations worker_id script s1)"


section \<open>Observations on states\<close>

text \<open>The state an outcome carries, and the jobs waiting in the queue of a state.\<close>

fun outcome_state :: "'s outcome \<Rightarrow> 's" where
  "outcome_state (Returned s) = s"
| "outcome_state (Raised e s) = s"
| "outcome_state (Suspended s) = s"

definition queued_jobs :: "state \<Rightarrow> job list" where
  "queued_jobs s = (case send_queue s of None \<Rightarrow> [] | Some q \<Rightarrow> queue_items q)"



section \<open>A concrete scenario\<close>

text \<open>
  User 1 with client 7, one task from chat 100 to the targets 200 and 300, and
  an inbound, not outgoing message \<^verbatim>\<open>hello\<close> in chat 100.
\<close>

definition hello_message :: message where
  "hello_message =
     \<lparr> msg_id = 1, msg_message = Some ''hello'', msg_chat_id = Some 100, msg_out = False \<rparr>"

definition hello_event :: event where
  "hello_event =
     \<lparr> ev_raw_text = Some ''hello'', ev_message = Some hello_message, ev_chat_id = Some 100 \<rparr>"

definition raw_text_settings :: settings where
  "raw_text_settings =
     make_default_task_settings
       \<lparr>filters := (filters make_default_task_settings)\<lparr>raw_text := True\<rparr>\<rparr>"

definition numbers_only_settings :: settings where
  "numbers_only_settings =
     make_default_task_settings
       \<lparr>filters := (filters make_default_task_settings)\<lparr>numbers_only := True\<rparr>\<rparr>"

definition scenario :: "task list \<Rightarrow> (string \<rightharpoonup> settings) \<Rightarrow> queue \<Rightarrow> state" where
  "scenario user_tasks per_label q =
     \<lparr> tasks_cache = [1 \<mapsto> user_tasks],
       tasks_settings = [1 \<mapsto> per_label],
       send_queue = Some q,
       target_entity_cache = Map.empty,
       log_records = [],
       effects = [] \<rparr>"

section \<open>Properties of the filter engine\<close>

lemma affix_loop_map:
  "affix_loop pre suf ls final = final @ map (\<lambda>line. pre @ line @ suf) ls"
  by (induction ls arbitrary: final) simp_all

text \<open>With \<^verbatim>\<open>raw_text\<close> off the first \<^verbatim>\<open>any(re.search(...))\<close> raises.\<close>

lemma collect_results_not_raw:
  "\<not> raw_text fs \<Longrightarrow> collect_results text fs = Inl TypeError"
  by (cases "re_search re_digit text") (simp_all add: collect_results_def)

lemma collect_results_raw:
  "raw_text fs \<Longrightarrow> collect_results text fs = Inr [text]"
  by (simp add: collect_results_def)

lemma collect_results_flag:
  "collect_results text (fs\<lparr>add_prefix_suffix := b\<rparr>) = collect_results text fs"
  by (cases "raw_text fs") (simp_all add: collect_results_not_raw collect_results_raw)

lemma apply_filters_raw:
  "raw_text (filters st) \<Longrightarrow>
   apply_filters_and_prefix_suffix text st = Inr [prefix st @ strip text @ suffix st]"
  by (simp add: apply_filters_and_prefix_suffix_def deduped_results_def collect_results_raw)

lemma apply_filters_not_raw:
  "\<not> raw_text (filters st) \<Longrightarrow> apply_filters_and_prefix_suffix text st = Inl TypeError"
  by (simp add: apply_filters_and_prefix_suffix_def deduped_results_def collect_results_not_raw)

text \<open>The deduplication loop by itself keeps one copy of every new line.\<close>

lemma set_dedup_loop:
  "set (dedup_loop rs deduped seen) = set deduped \<union> (set rs - seen)"
  by (induction rs arbitrary: deduped seen) auto

lemma distinct_dedup_loop:
  "distinct deduped \<Longrightarrow> set deduped \<subseteq> seen \<Longrightarrow> distinct (dedup_loop rs deduped seen)"
proof (induction rs arbitrary: deduped seen)
  case Nil
  then show ?case by simp
next
  case (Cons r rs)
  show ?case
  proof (cases "r \<in> seen")
    case True
    then show ?thesis using Cons by simp
  next
    case False
    have "distinct (deduped @ [r])"
      using Cons.prems False by auto
    moreover have "set (deduped @ [r]) \<subseteq> insert r seen"
      using Cons.prems by auto
    ultimately have "distinct (dedup_loop rs (deduped @ [r]) (insert r seen))"
      by (rule Cons.IH)
    then show ?thesis using False by simp
  qed
qed

text \<open>
  Claim C5. The last loop turns every line it is given, however many, into
  prefix, line, suffix with nothing in between, in order. Whatever the text
  and the settings, the engine's result is the list of the lines left after
  filtering and deduplication, each turned so; where the earlier stages raise,
  so does the engine. Setting the \<^verbatim>\<open>add_prefix_suffix\<close> flag to either value
  changes nothing.
\<close>

theorem prefix_suffix_applied_regardless_of_flag:
  "affix_loop (prefix st) (suffix st) survivors final =
     final @ map (\<lambda>line. prefix st @ line @ suffix st) survivors
   \<and> apply_filters_and_prefix_suffix text
       (st\<lparr>filters := (filters st)\<lparr>add_prefix_suffix := b\<rparr>\<rparr>) =
     (case deduped_results text st of
        Inl e \<Rightarrow> Inl e
      | Inr deduped \<Rightarrow> Inr (map (\<lambda>line. prefix st @ line @ suffix st) deduped))"
  by (simp add: apply_filters_and_prefix_suffix_def deduped_results_def collect_results_flag
      affix_loop_map split: sum.splits)

text \<open>
  Three lines through the last loop; and the engine with the flag off, where
  the prefix and the suffix are applied all the same.
\<close>

theorem prefix_suffix_applied_regardless_of_flag_witness:
  "affix_loop ''>>'' ''<<'' [''abc'', ''def'', ''12''] [] = [''>>abc<<'', ''>>def<<'', ''>>12<<'']
   \<and> apply_filters_and_prefix_suffix ''hello''
     (make_default_task_settings\<lparr>prefix := ''>>'', suffix := ''<<'',
        filters := \<lparr>raw_text = True, numbers_only = False, alphabets_only = False,
                    removed_alphabetic = False, removed_numeric = False,
                    add_prefix_suffix = False\<rparr>\<rparr>) = Inr [''>>hello<<'']"
  using prefix_suffix_applied_regardless_of_flag
    [of "make_default_task_settings\<lparr>prefix := ''>>'', suffix := ''<<'',
        filters := \<lparr>raw_text = True, numbers_only = False, alphabets_only = False,
                    removed_alphabetic = False, removed_numeric = False,
                    add_prefix_suffix = True\<rparr>\<rparr>" "[''abc'', ''def'', ''12'']" "[]"
        "''hello''" False]
  by (simp add: make_default_task_settings_def deduped_results_def collect_results_def
      strip_def isspace_def)

text \<open>
  Claim C6. With \<^verbatim>\<open>raw_text\<close> on, a trimmed text gives exactly the one line
  prefix, text, suffix, whatever the other five filter flags are. (The text
  need not be non-empty for this.)
\<close>

theorem raw_text_output_is_single_line:
  assumes "raw_text (filters st)" and "strip text = text"
  shows "apply_filters_and_prefix_suffix text st = Inr [prefix st @ text @ suffix st]"
  using assms by (simp add: apply_filters_raw)

theorem raw_text_output_is_single_line_witness:
  "apply_filters_and_prefix_suffix ''abc 123''
     \<lparr>outgoing = True, forward_tag = True, control = True,
      filters = \<lparr>raw_text = True, numbers_only = True, alphabets_only = True,
                  removed_alphabetic = True, removed_numeric = True,
                  add_prefix_suffix = True\<rparr>,
      prefix = ''['', suffix = '']''\<rparr> = Inr [''[abc 123]'']"
proof -
  have trimmed: "strip ''abc 123'' = ''abc 123''"
    by (simp add: strip_def isspace_def)
  show ?thesis
    using raw_text_output_is_single_line [OF _ trimmed,
      of "\<lparr>outgoing = True, forward_tag = True, control = True,
      filters = \<lparr>raw_text = True, numbers_only = True, alphabets_only = True,
                  removed_alphabetic = True, removed_numeric = True,
                  add_prefix_suffix = True\<rparr>,
      prefix = ''['', suffix = '']''\<rparr>"]
    by simp
qed

text \<open>
  Claim C9. On \<^verbatim>\<open>abc 123 def\<close> with only \<^verbatim>\<open>removed_alphabetic\<close> on, the
  engine raises \<^verbatim>\<open>TypeError\<close> at \<^verbatim>\<open>any(re.search(...))\<close> and returns no
  line. The token loop behind that call, run on the same text, gives the two
  lines the claim names.
\<close>

theorem removed_alphabetic_raises_type_error:
  "apply_filters_and_prefix_suffix ''abc 123 def''
     (make_default_task_settings\<lparr>filters :=
        (filters make_default_task_settings)\<lparr>removed_alphabetic := True\<rparr>\<rparr>) = Inl TypeError
   \<and> append_tokens isalpha (re_split_ws ''abc 123 def'') [] = [''abc'', ''def'']"
  by (simp add: apply_filters_not_raw make_default_task_settings_def isspace_def isalpha_def
      alpha_char_def)

text \<open>
  Claim C10. On \<^verbatim>\<open>7\<close> with \<^verbatim>\<open>numbers_only\<close> and \<^verbatim>\<open>removed_numeric\<close> on,
  both filters would give the line \<^verbatim>\<open>7\<close> and the union would be deduplicated
  to one line; the engine raises \<^verbatim>\<open>TypeError\<close> before either filter runs. The
  deduplication loop, run on the two copies, keeps one.
\<close>

theorem union_of_filters_raises_type_error:
  "apply_filters_and_prefix_suffix ''7''
     (make_default_task_settings\<lparr>filters :=
        (filters make_default_task_settings)\<lparr>numbers_only := True, removed_numeric := True\<rparr>\<rparr>)
     = Inl TypeError
   \<and> dedup_loop [''7'', ''7''] [] {} = [''7'']"
  by (simp add: apply_filters_not_raw make_default_task_settings_def)

section \<open>Properties of the queue and the handler\<close>

lemma queue_put_room:
  "\<not> full q \<Longrightarrow> queue_put q item = Returned (q\<lparr>queue_items := queue_items q @ [item]\<rparr>)"
  by (simp add: queue_put_def)

lemma queue_put_full:
  "full q \<Longrightarrow> queue_put q item = Suspended q"
  by (simp add: queue_put_def)

lemma queue_put_never_raises:
  "queue_put q item \<noteq> Raised e q'"
  by (simp add: queue_put_def)

lemma enqueue_for_targets_relay:
  assumes "forward_tag st" and "raw_text (filters st)" and "length out_messages = 1"
    and "send_queue s = Some q"
    and "maxsize q \<le> 0 \<or> int (length (queue_items q)) + int (length tids) \<le> maxsize q"
  shows "enqueue_for_targets user_id cl ev st out_messages s tids =
         Returned (s\<lparr>send_queue := Some (q\<lparr>queue_items := queue_items q @
           map (\<lambda>target_id. (user_id, cl, target_id, ForwardOrig (ev_message ev))) tids\<rparr>)\<rparr>)"
  using assms(4,5)
proof (induction tids arbitrary: s q)
  case Nil
  then show ?case by simp
next
  case (Cons target_id tids)
  let ?item = "(user_id, cl, target_id, ForwardOrig (ev_message ev))"
  let ?q' = "q\<lparr>queue_items := queue_items q @ [?item]\<rparr>"
  let ?s' = "s\<lparr>send_queue := Some ?q'\<rparr>"
  have room: "\<not> full q"
    using Cons.prems(2) by (auto simp: full_def)
  have step: "enqueue_for_target user_id cl ev st out_messages s target_id = Returned ?s'"
    using assms(1-3) Cons.prems(1) room
    by (simp add: enqueue_for_target_def queue_put_room)
  have "enqueue_for_targets user_id cl ev st out_messages ?s' tids =
        Returned (?s'\<lparr>send_queue := Some (?q'\<lparr>queue_items := queue_items ?q' @
           map (\<lambda>target_id. (user_id, cl, target_id, ForwardOrig (ev_message ev))) tids\<rparr>)\<rparr>)"
    using Cons.prems(2) by (intro Cons.IH) auto
  then show ?case using step by simp
qed

lemma settings_setdefault_present:
  "tasks_settings s user_id = Some per_user \<Longrightarrow> per_user lbl = Some st \<Longrightarrow>
   settings_setdefault s user_id lbl = (st, s)"
  by (simp add: settings_setdefault_def)

lemma process_task_relay:
  assumes "chat_id \<in> set (source_ids t)"
    and "tasks_settings s user_id = Some per_user" and "per_user (label t) = Some st"
    and "control st" and "outgoing st \<or> \<not> is_outgoing"
    and "forward_tag st" and "raw_text (filters st)"
    and "send_queue s = Some q"
    and "maxsize q \<le> 0 \<or> int (length (queue_items q)) + int (length (target_ids t)) \<le> maxsize q"
  shows "process_task user_id cl ev message_text chat_id is_outgoing s t =
         Returned (s\<lparr>send_queue := Some (q\<lparr>queue_items := queue_items q @
           map (\<lambda>target_id. (user_id, cl, target_id, ForwardOrig (ev_message ev)))
             (target_ids t)\<rparr>)\<rparr>)"
proof -
  have out: "apply_filters_and_prefix_suffix message_text st =
             Inr [prefix st @ strip message_text @ suffix st]"
    using assms(7) by (rule apply_filters_raw)
  have "enqueue_for_targets user_id cl ev st [prefix st @ strip message_text @ suffix st] s
          (target_ids t) =
        Returned (s\<lparr>send_queue := Some (q\<lparr>queue_items := queue_items q @
           map (\<lambda>target_id. (user_id, cl, target_id, ForwardOrig (ev_message ev)))
             (target_ids t)\<rparr>)\<rparr>)"
    using assms(6,7) _ assms(8,9) by (rule enqueue_for_targets_relay) simp
  then show ?thesis
    using assms(1,4,5) out settings_setdefault_present [OF assms(2,3)]
    by (auto simp add: process_task_def)
qed



text \<open>
  Claim C1, as amended. Sources 100, targets 200 and 300, \<^verbatim>\<open>raw_text\<close> and
  \<^verbatim>\<open>forward_tag\<close> on, the other settings at their defaults: the message
  \<^verbatim>\<open>hello\<close> in chat 100 puts exactly two jobs on an empty queue of capacity
  at least two (or unbounded), one for 200 and one for 300, and both are
  relay-original jobs carrying the message object, not text jobs.
\<close>

theorem hello_enqueues_two_relay_jobs:
  assumes "n \<le> 0 \<or> 2 \<le> n"
  shows "hot_message_handler 1 cl
           \<lparr>ev_raw_text = Some ''hello'', ev_message = Some m, ev_chat_id = Some 100\<rparr>
           (scenario [\<lparr>label = lbl, source_ids = [100], target_ids = [200, 300]\<rparr>]
              [lbl \<mapsto> raw_text_settings] \<lparr>maxsize = n, queue_items = []\<rparr>) =
         Returned
           (scenario [\<lparr>label = lbl, source_ids = [100], target_ids = [200, 300]\<rparr>]
              [lbl \<mapsto> raw_text_settings]
              \<lparr>maxsize = n,
               queue_items = [(1, cl, 200, ForwardOrig (Some m)),
                              (1, cl, 300, ForwardOrig (Some m))]\<rparr>)"
proof -
  let ?t = "\<lparr>label = lbl, source_ids = [100], target_ids = [200, 300]\<rparr>"
  let ?ev = "\<lparr>ev_raw_text = Some ''hello'', ev_message = Some m, ev_chat_id = Some 100\<rparr>"
  let ?s = "scenario [?t] [lbl \<mapsto> raw_text_settings] \<lparr>maxsize = n, queue_items = []\<rparr>"
  have "process_task 1 cl ?ev ''hello'' 100 (event_is_outgoing ?ev) ?s ?t =
        Returned (?s\<lparr>send_queue := Some (\<lparr>maxsize = n, queue_items = []\<rparr>
          \<lparr>queue_items := queue_items \<lparr>maxsize = n, queue_items = []\<rparr> @
           map (\<lambda>target_id. (1, cl, target_id, ForwardOrig (ev_message ?ev)))
             (target_ids ?t)\<rparr>)\<rparr>)"
    using assms
    by (intro process_task_relay [where per_user = "[lbl \<mapsto> raw_text_settings]"
          and st = raw_text_settings])
      (auto simp add: scenario_def raw_text_settings_def make_default_task_settings_def)
  then show ?thesis
    by (simp add: hot_message_handler_def event_message_text_def event_chat_id_def
        strip_def isspace_def scenario_def)
qed

theorem hello_enqueues_two_relay_jobs_witness:
  "hot_message_handler 1 7 hello_event
     (scenario [\<lparr>label = ''t'', source_ids = [100], target_ids = [200, 300]\<rparr>]
        [''t'' \<mapsto> raw_text_settings] \<lparr>maxsize = 10000, queue_items = []\<rparr>) =
   Returned
     (scenario [\<lparr>label = ''t'', source_ids = [100], target_ids = [200, 300]\<rparr>]
        [''t'' \<mapsto> raw_text_settings]
        \<lparr>maxsize = 10000,
         queue_items = [(1, 7, 200, ForwardOrig (Some hello_message)),
                        (1, 7, 300, ForwardOrig (Some hello_message))]\<rparr>)"
  using hello_enqueues_two_relay_jobs [of 10000 7 hello_message "''t''"]
  by (simp add: hello_event_def)

text \<open>
  Claim C1 as stated fails: the two queued jobs are not the text jobs
  \<^verbatim>\<open>(200, "hello")\<close> and \<^verbatim>\<open>(300, "hello")\<close>.
\<close>

theorem hello_two_text_jobs_counterexample:
  "queued_jobs (outcome_state (hot_message_handler 1 7 hello_event
     (scenario [\<lparr>label = ''t'', source_ids = [100], target_ids = [200, 300]\<rparr>]
        [''t'' \<mapsto> raw_text_settings] \<lparr>maxsize = 10000, queue_items = []\<rparr>)))
   \<noteq> [(1, 7, 200, Text ''hello''), (1, 7, 300, Text ''hello'')]"
  by (simp add: hot_message_handler_def event_message_text_def event_chat_id_def
      event_is_outgoing_def hello_event_def hello_message_def strip_def isspace_def
      scenario_def process_task_def settings_setdefault_def raw_text_settings_def
      make_default_task_settings_def apply_filters_raw enqueue_for_target_def
      queue_put_def full_def queued_jobs_def)

text \<open>
  Claim C2. Three enqueues into an empty queue of capacity two with no consumer:
  the first two jobs are queued, and at the third the handler is suspended in
  \<^verbatim>\<open>await send_queue.put\<close>. It does not return, the job is not dropped, and
  nothing is logged.
\<close>

theorem full_queue_suspends_producer:
  "hot_message_handler 1 7 hello_event
     (scenario [\<lparr>label = ''t'', source_ids = [100], target_ids = [200, 300, 400]\<rparr>]
        [''t'' \<mapsto> raw_text_settings] \<lparr>maxsize = 2, queue_items = []\<rparr>) =
   Suspended
     (scenario [\<lparr>label = ''t'', source_ids = [100], target_ids = [200, 300, 400]\<rparr>]
        [''t'' \<mapsto> raw_text_settings]
        \<lparr>maxsize = 2,
         queue_items = [(1, 7, 200, ForwardOrig (Some hello_message)),
                        (1, 7, 300, ForwardOrig (Some hello_message))]\<rparr>)"
  by (simp add: hot_message_handler_def event_message_text_def event_chat_id_def
      event_is_outgoing_def hello_event_def hello_message_def strip_def isspace_def
      scenario_def process_task_def settings_setdefault_def raw_text_settings_def
      make_default_task_settings_def apply_filters_raw enqueue_for_target_def
      queue_put_def full_def)

lemma put_messages_never_raises:
  "put_messages q user_id cl target_id oms \<noteq> Raised e q'"
proof (induction oms arbitrary: q)
  case Nil
  then show ?case by simp
next
  case (Cons om oms)
  then show ?case
    by (cases "full q") (simp_all add: queue_put_def)
qed

lemma enqueue_for_target_never_raises:
  "enqueue_for_target user_id cl ev st out_messages s target_id \<noteq> Raised e s'"
  using put_messages_never_raises queue_put_never_raises
  by (auto simp add: enqueue_for_target_def split: option.splits outcome.splits)

lemma enqueue_for_targets_never_raises:
  "enqueue_for_targets user_id cl ev st out_messages s tids \<noteq> Raised e s'"
proof (induction tids arbitrary: s)
  case Nil
  then show ?case by simp
next
  case (Cons target_id tids)
  then show ?case
    using enqueue_for_target_never_raises
    by (auto split: outcome.splits)
qed

lemma settings_setdefault_keeps:
  "settings_setdefault s user_id lbl = (st, s1) \<Longrightarrow>
   send_queue s1 = send_queue s \<and> log_records s1 = log_records s \<and>
   effects s1 = effects s \<and> tasks_cache s1 = tasks_cache s"
  by (auto simp add: settings_setdefault_def split: option.splits)

lemma process_task_raised:
  assumes "process_task user_id cl ev message_text chat_id is_outgoing s t = Raised e s'"
  shows "e = TypeError \<and> send_queue s' = send_queue s \<and> log_records s' = log_records s"
proof -
  obtain st s1 where sd: "settings_setdefault s user_id (label t) = (st, s1)"
    by (cases "settings_setdefault s user_id (label t)")
  have keeps: "send_queue s1 = send_queue s \<and> log_records s1 = log_records s"
    using settings_setdefault_keeps [OF sd] by simp
  show ?thesis
  proof (cases "raw_text (filters st)")
    case True
    then show ?thesis
      using assms sd enqueue_for_targets_never_raises
      by (auto simp add: process_task_def apply_filters_raw split: if_splits)
  next
    case False
    then show ?thesis
      using assms sd keeps
      by (auto simp add: process_task_def apply_filters_not_raw split: if_splits)
  qed
qed

lemma process_tasks_append:
  "process_tasks user_id cl ev message_text chat_id is_outgoing s (xs @ ys) =
     (case process_tasks user_id cl ev message_text chat_id is_outgoing s xs of
        Returned s' \<Rightarrow> process_tasks user_id cl ev message_text chat_id is_outgoing s' ys
      | Raised e s' \<Rightarrow> Raised e s'
      | Suspended s' \<Rightarrow> Suspended s')"
  by (induction xs arbitrary: s) (simp_all split: outcome.splits)

lemma strip_Nil: "strip [] = []"
  by (simp add: strip_def)

text \<open>
  Claim C3, as amended. When the processing of one matching task raises, the
  handler logs the exception and returns; nothing is raised past it. The jobs
  the earlier tasks put on the queue stay there, and the tasks after the
  failing one are not evaluated: the result does not depend on them.
\<close>

theorem exception_in_task_ends_event:
  assumes "event_message_text ev = Some message_text" and "strip message_text \<noteq> []"
    and "event_chat_id ev = Some chat_id"
    and "tasks_cache s user_id = Some (earlier @ t # later)"
    and "process_tasks user_id cl ev message_text chat_id (event_is_outgoing ev) s earlier
           = Returned s1"
    and "process_task user_id cl ev message_text chat_id (event_is_outgoing ev) s1 t
           = Raised e s2"
  shows "hot_message_handler user_id cl ev s =
           Returned (s2\<lparr>log_records := log_records s2 @ [HandlerException user_id e]\<rparr>)
         \<and> send_queue s2 = send_queue s1 \<and> log_records s2 = log_records s1"
proof -
  have nonempty: "message_text \<noteq> []"
    using assms(2) strip_Nil by auto
  have "process_tasks user_id cl ev message_text chat_id (event_is_outgoing ev) s
          (earlier @ t # later) = Raised e s2"
    using assms(5,6) by (simp add: process_tasks_append)
  then have "hot_message_handler user_id cl ev s =
             Returned (s2\<lparr>log_records := log_records s2 @ [HandlerException user_id e]\<rparr>)"
    using assms(1-4) nonempty by (simp add: hot_message_handler_def)
  then show ?thesis
    using process_task_raised [OF assms(6)] by simp
qed

theorem exception_in_task_ends_event_witness:
  "hot_message_handler 1 7 hello_event
     (scenario [\<lparr>label = ''c'', source_ids = [100], target_ids = [400]\<rparr>,
                \<lparr>label = ''a'', source_ids = [100], target_ids = [200]\<rparr>,
                \<lparr>label = ''b'', source_ids = [100], target_ids = [300]\<rparr>]
        [''a'' \<mapsto> numbers_only_settings, ''b'' \<mapsto> raw_text_settings,
         ''c'' \<mapsto> raw_text_settings]
        \<lparr>maxsize = 10, queue_items = []\<rparr>) =
   Returned
     ((scenario [\<lparr>label = ''c'', source_ids = [100], target_ids = [400]\<rparr>,
                \<lparr>label = ''a'', source_ids = [100], target_ids = [200]\<rparr>,
                \<lparr>label = ''b'', source_ids = [100], target_ids = [300]\<rparr>]
        [''a'' \<mapsto> numbers_only_settings, ''b'' \<mapsto> raw_text_settings,
         ''c'' \<mapsto> raw_text_settings]
        \<lparr>maxsize = 10, queue_items = [(1, 7, 400, ForwardOrig (Some hello_message))]\<rparr>)
      \<lparr>log_records := [HandlerException 1 TypeError]\<rparr>)"
proof -
  let ?c = "\<lparr>label = ''c'', source_ids = [100], target_ids = [400]\<rparr>"
  let ?a = "\<lparr>label = ''a'', source_ids = [100], target_ids = [200]\<rparr>"
  let ?b = "\<lparr>label = ''b'', source_ids = [100], target_ids = [300]\<rparr>"
  let ?per_label = "[''a'' \<mapsto> numbers_only_settings, ''b'' \<mapsto> raw_text_settings,
                     ''c'' \<mapsto> raw_text_settings]"
  let ?s = "scenario [?c, ?a, ?b] ?per_label \<lparr>maxsize = 10, queue_items = []\<rparr>"
  let ?s1 = "scenario [?c, ?a, ?b] ?per_label
               \<lparr>maxsize = 10, queue_items = [(1, 7, 400, ForwardOrig (Some hello_message))]\<rparr>"
  have h1: "event_message_text hello_event = Some ''hello''"
    by (simp add: event_message_text_def hello_event_def)
  have h2: "strip ''hello'' \<noteq> []"
    by (simp add: strip_def isspace_def)
  have h3: "event_chat_id hello_event = Some 100"
    by (simp add: event_chat_id_def hello_event_def)
  have h4: "tasks_cache ?s 1 = Some ([?c] @ ?a # [?b])"
    by (simp add: scenario_def)
  have h5: "process_tasks 1 7 hello_event ''hello'' 100 (event_is_outgoing hello_event) ?s [?c]
              = Returned ?s1"
    by (simp add: process_task_def settings_setdefault_def scenario_def
        raw_text_settings_def make_default_task_settings_def apply_filters_raw
        enqueue_for_target_def queue_put_def full_def hello_event_def)
  have h6: "process_task 1 7 hello_event ''hello'' 100 (event_is_outgoing hello_event) ?s1 ?a
              = Raised TypeError ?s1"
    by (simp add: process_task_def settings_setdefault_def scenario_def
        numbers_only_settings_def make_default_task_settings_def apply_filters_not_raw)
  show ?thesis
    using exception_in_task_ends_event [OF h1 h2 h3 h4 h5 h6]
    by (simp add: scenario_def)
qed

text \<open>
  Claim C3 as stated fails. Task \<^verbatim>\<open>b\<close> alone puts a job on the queue; behind
  task \<^verbatim>\<open>a\<close>, whose filter evaluation raises, it is not evaluated and the
  queue stays empty.
\<close>

theorem failing_task_skips_later_tasks_counterexample:
  "queued_jobs (outcome_state (hot_message_handler 1 7 hello_event
     (scenario [\<lparr>label = ''a'', source_ids = [100], target_ids = [200]\<rparr>,
                \<lparr>label = ''b'', source_ids = [100], target_ids = [300]\<rparr>]
        [''a'' \<mapsto> numbers_only_settings, ''b'' \<mapsto> raw_text_settings]
        \<lparr>maxsize = 10, queue_items = []\<rparr>))) = []
   \<and> queued_jobs (outcome_state (hot_message_handler 1 7 hello_event
     (scenario [\<lparr>label = ''b'', source_ids = [100], target_ids = [300]\<rparr>]
        [''a'' \<mapsto> numbers_only_settings, ''b'' \<mapsto> raw_text_settings]
        \<lparr>maxsize = 10, queue_items = []\<rparr>))) = [(1, 7, 300, ForwardOrig (Some hello_message))]"
  by (simp add: hot_message_handler_def event_message_text_def event_chat_id_def
      event_is_outgoing_def hello_event_def hello_message_def strip_def isspace_def
      scenario_def process_task_def settings_setdefault_def raw_text_settings_def
      numbers_only_settings_def make_default_task_settings_def apply_filters_raw
      apply_filters_not_raw enqueue_for_target_def queue_put_def full_def queued_jobs_def)

section \<open>Properties of target resolution\<close>

lemmas resolve_defs = resolve_target_entity_once_def resolve_begin_def resolve_finish_def




lemma resolve_other_entries:
  assumes "(u, t) \<noteq> (user_id, target_id)"
  shows "cached_entity (snd (resolve_target_entity_once answer s user_id cl target_id)) u t =
         cached_entity s u t"
  using assms
  by (auto simp add: resolve_defs cached_entity_def Let_def split: option.splits sum.splits)










section \<open>Properties of the send worker\<close>






end
